theory Spec2Isabelle
  imports Complex_Main
begin

section \<open>The controller's state\<close>

text \<open>
  The module-level variables of \<^verbatim>\<open>main.py\<close> that the functions read and write, the
  levels of the four motor output pins (\<^verbatim>\<open>motor_pins\<close>), and a chronological trace of the
  effects visible from outside (pin writes, sleeps, console and display output).
\<close>

datatype event =
    Pins "bool list"
  | Sleep real
  | Print string
  | OledPoweroff
  | OledShow
  | OledText string

record state =
  mode_debug :: bool
  mode_manual :: bool
  mode_switch :: bool
  button_pushed :: bool
  motor_retract_steps :: int
  previous_distance :: real
  motor_pins :: "bool list"
  trace :: "event list"

datatype error = SystemExit int state

text \<open>The values the module assigns at import time (lines 20, 51, 52, 70, 83, 84).\<close>

definition boot :: state where
  "boot = \<lparr>mode_debug = False, mode_manual = False, mode_switch = False,
            button_pushed = False, motor_retract_steps = 0, previous_distance = 165,
            motor_pins = [False, False, False, False], trace = []\<rparr>"

definition emit :: "event \<Rightarrow> state \<Rightarrow> state" where
  "emit e s = s\<lparr>trace := trace s @ [e]\<rparr>"

section \<open>Calibration constants\<close>

definition action_after_seconds :: int where "action_after_seconds = 60"
definition brightness_threshold :: int where "brightness_threshold = 25000"
definition motion_threshold :: int where "motion_threshold = 5"
definition polling_interval_presence :: int where "polling_interval_presence = 1"
definition polling_interval_standby :: int where "polling_interval_standby = 5"
definition step_count :: int where "step_count = 2048"
definition step_sleep_close :: real where "step_sleep_close = 3 / 1000"
definition step_sleep_open :: real where "step_sleep_open = 2 / 1000"

definition step_sequence :: "int list list" where
  "step_sequence = [[1,0,0,0],
                    [0,1,0,0],
                    [0,0,1,0],
                    [0,0,0,1]]"

section \<open>motor_cleanup\<close>

text \<open>
  \<^verbatim>\<open>for pin in range(0, len(motor_pins)): motor_pins[pin].low()\<close>
\<close>

definition motor_cleanup :: "state \<Rightarrow> state" where
  "motor_cleanup s =
     (let ps = fold (\<lambda>pin ps. ps[pin := False]) [0..<length (motor_pins s)] (motor_pins s)
      in emit (Pins ps) (s\<lparr>motor_pins := ps\<rparr>))"

section \<open>button_interrupt\<close>

text \<open>
  The handler of the rising edge on the button pin. The last branch ends in
  \<^verbatim>\<open>exit(1)\<close>; the model returns the error with the state the handler leaves behind.
\<close>

definition button_interrupt :: "state \<Rightarrow> error + state" where
  "button_interrupt s0 =
     (let s = s0\<lparr>button_pushed := True\<rparr> in
      if \<not> mode_debug s \<and> \<not> mode_manual s then
        Inr (s\<lparr>mode_manual := True, mode_switch := True\<rparr>)
      else if \<not> mode_debug s \<and> mode_manual s then
        Inr (s\<lparr>mode_debug := True, mode_manual := False, mode_switch := True\<rparr>)
      else if mode_debug s \<and> \<not> mode_manual s then
        Inr (s\<lparr>mode_debug := False, mode_manual := False, mode_switch := True\<rparr>)
      else
        Inl (SystemExit 1
          (emit (Print ''State machine error'')
            (emit OledShow
              (emit (OledText ''State machine error'')
                (motor_cleanup s))))))"

text \<open>A number of button edges in a row: the handler runs once per edge, and a halt ends the run.\<close>

fun presses :: "nat \<Rightarrow> state \<Rightarrow> error + state" where
  "presses 0 s = Inr s"
| "presses (Suc n) s =
     (case button_interrupt s of Inl e \<Rightarrow> Inl e | Inr s' \<Rightarrow> presses n s')"

text \<open>
  The mode the dispatcher of \<^verbatim>\<open>main\<close> reads off the two flags (lines 193, 218, 229); the
  names are those of the comment at lines 47-50. With both flags set no branch of the
  dispatcher applies.
\<close>

datatype mode = AUTO | MANUAL | DEBUG

definition operating_mode :: "state \<Rightarrow> mode option" where
  "operating_mode s =
     (if \<not> mode_debug s \<and> \<not> mode_manual s then Some AUTO
      else if \<not> mode_debug s \<and> mode_manual s then Some MANUAL
      else if mode_debug s \<and> \<not> mode_manual s then Some DEBUG
      else None)"

section \<open>detect_presence\<close>

text \<open>
  \<^verbatim>\<open>measure_brightness\<close> and \<^verbatim>\<open>measure_distance\<close> read the hardware; what they return is
  an input of the model. The brightness is the integer of \<^verbatim>\<open>read_u16\<close>, the distance a
  float, taken here as a real number (the comparisons are those of the source, the
  rounding of float addition is not modelled).
\<close>

definition detect_presence :: "int \<Rightarrow> real \<Rightarrow> state \<Rightarrow> bool \<times> state" where
  "detect_presence brightness distance s =
     (let brightness_detected = (brightness > brightness_threshold);
          motion_detected =
            (distance > previous_distance s + real_of_int motion_threshold
             \<or> distance < previous_distance s - real_of_int motion_threshold);
          presence_detected = (brightness_detected \<or> motion_detected);
          s1 = s\<lparr>previous_distance := distance\<rparr>
      in (presence_detected,
          emit (Print (''Presence detected:  '' @ (if presence_detected then ''True'' else ''False''))) s1))"

section \<open>motor_spin\<close>

text \<open>
  The argument \<^verbatim>\<open>motor_direction\<close> is compared with \<^verbatim>\<open>True\<close> and \<^verbatim>\<open>False\<close> by
  \<^verbatim>\<open>==\<close>, which the integers 1 and 0 satisfy as well; any other value takes the defensive
  branch.
\<close>

datatype pyval = PyBool bool | PyInt int | PyNone

definition py_eq_bool :: "pyval \<Rightarrow> bool \<Rightarrow> bool" where
  "py_eq_bool v b = (v = PyBool b \<or> v = PyInt (if b then 1 else 0))"

text \<open>
  Lines 166-167: every motor pin takes the level of its column in the row
  \<^verbatim>\<open>step_sequence[motor_step_counter]\<close>.
\<close>

definition energize :: "int \<Rightarrow> state \<Rightarrow> state" where
  "energize motor_step_counter s =
     (let ps = fold (\<lambda>pin ps. ps[pin := (step_sequence ! nat motor_step_counter ! pin \<noteq> 0)])
                 [0..<length (motor_pins s)] (motor_pins s)
      in emit (Pins ps) (s\<lparr>motor_pins := ps\<rparr>))"

text \<open>Lines 168-175: the next phase index, or nothing on the defensive branch.\<close>

definition next_step_counter :: "pyval \<Rightarrow> int \<Rightarrow> int option" where
  "next_step_counter motor_direction motor_step_counter =
     (if py_eq_bool motor_direction True then Some ((motor_step_counter - 1) mod 4)
      else if py_eq_bool motor_direction False then Some ((motor_step_counter + 1) mod 4)
      else None)"

text \<open>
  The \<^verbatim>\<open>for\<close> loop of lines 165-181, with \<open>m\<close> iterations left and \<open>i\<close> the loop
  variable. The button's interrupt can fire at any moment; the loop reads what it wrote
  only at line 176, so \<open>irq i\<close> is the number of edges that arrive after the check of
  iteration \<open>i - 1\<close> and before the check of iteration \<open>i\<close>.
\<close>

fun spin_steps ::
  "(nat \<Rightarrow> nat) \<Rightarrow> pyval \<Rightarrow> real \<Rightarrow> nat \<Rightarrow> nat \<Rightarrow> int \<Rightarrow> state \<Rightarrow> error + state" where
  "spin_steps irq motor_direction step_sleep 0 i motor_step_counter s = Inr s"
| "spin_steps irq motor_direction step_sleep (Suc m) i motor_step_counter s =
     (let s1 = energize motor_step_counter s in
      case next_step_counter motor_direction motor_step_counter of
        None \<Rightarrow>
          Inl (SystemExit 1
            (motor_cleanup
              (emit (Print ''uh oh... direction should *always* be either True or False'') s1)))
      | Some c \<Rightarrow>
          (case presses (irq i) s1 of
             Inl e \<Rightarrow> Inl e
           | Inr s2 \<Rightarrow>
               if button_pushed s2 then
                 Inr ((motor_cleanup s2)\<lparr>motor_retract_steps := int i, button_pushed := False\<rparr>)
               else spin_steps irq motor_direction step_sleep m (Suc i) c (emit (Sleep step_sleep) s2)))"

text \<open>Lines 161-164, what \<^verbatim>\<open>motor_spin\<close> does before its loop.\<close>

definition motor_spin_init :: "state \<Rightarrow> state" where
  "motor_spin_init s = motor_cleanup (s\<lparr>motor_retract_steps := 0\<rparr>)"

definition motor_spin :: "(nat \<Rightarrow> nat) \<Rightarrow> int \<Rightarrow> pyval \<Rightarrow> real \<Rightarrow> state \<Rightarrow> error + state" where
  "motor_spin irq revolutions motor_direction step_sleep s =
     spin_steps irq motor_direction step_sleep (nat (revolutions * step_count)) 0 0
       (motor_spin_init s)"

text \<open>No button edge at all.\<close>

definition no_irq :: "nat \<Rightarrow> nat" where
  "no_irq i = 0"

text \<open>Whether an effect of the trace is a sleep.\<close>

fun slept :: "event \<Rightarrow> bool" where
  "slept (Sleep d) = True"
| "slept e = False"

section \<open>Facts about the interrupt handler\<close>

lemma button_interrupt_valid:
  assumes "\<not> (mode_debug s \<and> mode_manual s)"
  shows "button_interrupt s =
     Inr (s\<lparr>button_pushed := True, mode_switch := True,
            mode_debug := \<not> mode_debug s \<and> mode_manual s,
            mode_manual := \<not> mode_debug s \<and> \<not> mode_manual s\<rparr>)"
  using assms by (auto simp: button_interrupt_def Let_def)

lemma presses_valid:
  "\<not> (mode_debug s \<and> mode_manual s) \<Longrightarrow>
   \<exists>s'. presses n s = Inr s' \<and> \<not> (mode_debug s' \<and> mode_manual s')
     \<and> motor_retract_steps s' = motor_retract_steps s
     \<and> previous_distance s' = previous_distance s
     \<and> motor_pins s' = motor_pins s
     \<and> trace s' = trace s
     \<and> button_pushed s' = (button_pushed s \<or> 0 < n)
     \<and> mode_switch s' = (mode_switch s \<or> 0 < n)"
proof (induction n arbitrary: s)
  case 0
  then show ?case by simp
next
  case (Suc n)
  let ?t = "s\<lparr>button_pushed := True, mode_switch := True,
            mode_debug := \<not> mode_debug s \<and> mode_manual s,
            mode_manual := \<not> mode_debug s \<and> \<not> mode_manual s\<rparr>"
  have 1: "button_interrupt s = Inr ?t"
    using Suc.prems by (rule button_interrupt_valid)
  have 2: "\<not> (mode_debug ?t \<and> mode_manual ?t)" by simp
  from Suc.IH[OF 2] obtain s' where "presses n ?t = Inr s'"
    "\<not> (mode_debug s' \<and> mode_manual s')"
    "motor_retract_steps s' = motor_retract_steps ?t"
    "previous_distance s' = previous_distance ?t"
    "motor_pins s' = motor_pins ?t" "trace s' = trace ?t"
    "button_pushed s' = (button_pushed ?t \<or> 0 < n)"
    "mode_switch s' = (mode_switch ?t \<or> 0 < n)" by blast
  with 1 show ?case by simp
qed

lemma presses_mode:
  "\<not> (mode_debug s \<and> mode_manual s) \<Longrightarrow>
   \<exists>s'. presses n s = Inr s' \<and>
     operating_mode s' = Some ([AUTO, MANUAL, DEBUG] !
       (((if mode_debug s then 2 else if mode_manual s then 1 else 0) + n) mod 3))"
proof (induction n arbitrary: s)
  case 0
  then show ?case by (auto simp: operating_mode_def)
next
  case (Suc n)
  let ?t = "s\<lparr>button_pushed := True, mode_switch := True,
            mode_debug := \<not> mode_debug s \<and> mode_manual s,
            mode_manual := \<not> mode_debug s \<and> \<not> mode_manual s\<rparr>"
  let ?ix = "\<lambda>s. if mode_debug s then 2 else if mode_manual s then 1 else (0::nat)"
  have 1: "button_interrupt s = Inr ?t"
    using Suc.prems by (rule button_interrupt_valid)
  have 2: "\<not> (mode_debug ?t \<and> mode_manual ?t)" by simp
  have 3: "(?ix ?t + n) mod 3 = (?ix s + Suc n) mod 3"
    using Suc.prems by auto
  from Suc.IH[OF 2] 1 3 show ?case by simp
qed

text \<open>
  C1. From the AUTO state (both mode flags false), whatever the other variables hold,
  any number \<open>N\<close> of button edges runs the handler \<open>N\<close> times without ever taking its
  defensive branch (the result is never a halt), and the mode left behind is the
  \<open>N mod 3\<close>-th of the cycle AUTO, MANUAL, DEBUG.
\<close>

theorem button_cycle:
  assumes "\<not> mode_debug s" and "\<not> mode_manual s"
  shows "\<exists>s'. presses N s = Inr s' \<and>
     operating_mode s' = Some ([AUTO, MANUAL, DEBUG] ! (N mod 3))"
  using presses_mode[of s N] assms by simp

theorem button_cycle_witness:
  "\<not> mode_debug boot \<and> \<not> mode_manual boot \<and>
   (\<exists>s'. presses 5 boot = Inr s' \<and> operating_mode s' = Some DEBUG)"
  using button_cycle[of boot 5] by (simp add: boot_def)

section \<open>Facts about detect_presence\<close>

text \<open>
  C7. The verdict of \<^verbatim>\<open>detect_presence\<close> is true exactly when the brightness sample is
  strictly above \<open>brightness_threshold\<close> or the new distance is more than
  \<open>motion_threshold\<close> away from the stored \<open>previous_distance\<close>, in either direction. A
  brightness of 30000 (threshold 25000) gives true at every distance, and a distance of
  175 against a stored 165 (threshold 5) gives true at every brightness.
\<close>

theorem detect_presence_verdict:
  "fst (detect_presence b d s) =
     (b > brightness_threshold \<or> \<bar>d - previous_distance s\<bar> > real_of_int motion_threshold)
   \<and> brightness_threshold = 25000 \<and> motion_threshold = 5
   \<and> fst (detect_presence 30000 d s)
   \<and> fst (detect_presence b 175 (s\<lparr>previous_distance := 165\<rparr>))"
  by (auto simp: detect_presence_def Let_def brightness_threshold_def motion_threshold_def)

text \<open>
  C8. After a call of \<^verbatim>\<open>detect_presence\<close> the stored \<open>previous_distance\<close> is the distance
  measured in that call, for every earlier value, every pair of readings and both
  verdicts.
\<close>

theorem detect_presence_baseline:
  "previous_distance (snd (detect_presence b d s)) = d"
  by (simp add: detect_presence_def Let_def emit_def)


end
